theory Spec2Isabelle
  imports Complex_Main "HOL-Library.Word" "HOL-Library.List_Lexorder" "HOL-Library.Sublist"
begin

section \<open>Text values\<close>

text \<open>
  A Python \<open>str\<close> is a sequence of Unicode code points. The script splits such
  values at whitespace and the group-by compares them, so a text value is the list of
  its code points; the order on lists (lexicographic, a proper prefix first) is the
  order Python's \<open><\<close> gives on \<open>str\<close>.
\<close>

type_synonym ustring = "nat list"

text \<open>
  The code points for which \<open>str.isspace\<close> holds; \<open>str.split()\<close> without
  arguments separates at runs of them.
\<close>

definition is_space :: "nat \<Rightarrow> bool" where
  "is_space c =
     ((9 \<le> c \<and> c \<le> 13) \<or> (28 \<le> c \<and> c \<le> 32) \<or> c = 133 \<or> c = 160 \<or> c = 5760 \<or>
      (8192 \<le> c \<and> c \<le> 8202) \<or> c = 8232 \<or> c = 8233 \<or> c = 8239 \<or> c = 8287 \<or>
      c = 12288)"

text \<open>
  \<open>x.split()\<close>: skip a run of whitespace; at the end of the text stop; otherwise a
  token starts at the character found and runs up to the next whitespace or the end;
  go on after it.
\<close>

function split :: "ustring \<Rightarrow> ustring list" where
  "split s =
     (case dropWhile is_space s of
        [] \<Rightarrow> []
      | c # cs \<Rightarrow>
          (c # takeWhile (\<lambda>x. \<not> is_space x) cs) # split (dropWhile (\<lambda>x. \<not> is_space x) cs))"
  by pat_completeness auto
termination
proof (relation "measure length")
  show "wf (measure length)" by simp
next
  fix s cs :: ustring and c :: nat
  assume r: "dropWhile is_space s = c # cs"
  have "length (dropWhile (\<lambda>x. \<not> is_space x) cs) \<le> length cs"
    by (simp add: length_dropWhile_le)
  also have "length cs < length (dropWhile is_space s)" using r by simp
  also have "length (dropWhile is_space s) \<le> length s" by (simp add: length_dropWhile_le)
  finally show "(dropWhile (\<lambda>x. \<not> is_space x) cs, s) \<in> measure length" by simp
qed

declare split.simps [simp del]

section \<open>The table\<close>

text \<open>
  A cell of the region-name column as \<open>read_csv\<close> delivers it: a text, or the
  missing value (a float NaN) for an empty field.
\<close>

datatype cell = Str ustring | NaN

datatype error = IndexError | AttributeError | LibraryError

text \<open>
  The rows below are those of a table whose four count columns all have the type
  \<open>int64\<close>, which \<open>read_csv\<close> gives a column when every field is an integer
  from \<open>-2^63\<close> up to \<open>2^63 - 1\<close>: 64-bit integers whose sums wrap around.
  Count columns of the other numeric types are the subject of a section of their own
  below.
\<close>

type_synonym count = "64 word"

text \<open>
  A row of the data frame as loaded, restricted to the columns the script reads: the
  region name (line 19), the age bracket and the four enrollment counts (lines 26-27).
  The age bracket is never inspected, so its type is left open.
\<close>

record 'g loaded_row =
  sigungumyeong :: cell
  yeonryeong_gubun :: 'g
  saeopjang_gaipja :: count
  jiyeok_gaipja :: count
  imui_gaipja :: count
  imui_gyesok_gaipja :: count

text \<open>Line 19 adds the province column.\<close>

record 'g row = "'g loaded_row" +
  sido :: ustring

text \<open>
  The lambda of line 19, \<open>x.split()[0]\<close>: a float has no \<open>split\<close>, and the
  first element of an empty list does not exist.
\<close>

definition first_of_split :: "cell \<Rightarrow> error + ustring" where
  "first_of_split x =
     (case x of
        NaN \<Rightarrow> Inl AttributeError
      | Str s \<Rightarrow> (case split s of [] \<Rightarrow> Inl IndexError | t # _ \<Rightarrow> Inr t))"

text \<open>
  \<open>Series.apply\<close> calls the lambda on the cells in row order; the first exception
  ends the script, otherwise every row receives its province.
\<close>

fun add_sido :: "'g loaded_row list \<Rightarrow> error + 'g row list" where
  "add_sido [] = Inr []"
| "add_sido (r # rs) =
     (case first_of_split (sigungumyeong r) of
        Inl e \<Rightarrow> Inl e
      | Inr t \<Rightarrow>
          (case add_sido rs of
             Inl e \<Rightarrow> Inl e
           | Inr rs' \<Rightarrow> Inr (loaded_row.extend r (row.fields t) # rs')))"

text \<open>
  The specification's wording for the province: the first whitespace-separated token
  of the region name, that is, the longest run of non-whitespace characters that
  starts at the first non-whitespace character.
\<close>

definition first_token :: "ustring \<Rightarrow> ustring" where
  "first_token s = takeWhile (\<lambda>x. \<not> is_space x) (dropWhile is_space s)"

section \<open>Reshaping\<close>

text \<open>The column names of lines 27 and 45-47, as code points.\<close>

definition col_saeopjang_gaipja :: ustring where
  "col_saeopjang_gaipja = [49324, 50629, 51109, 44032, 51077, 51088]"

definition col_jiyeok_gaipja :: ustring where
  "col_jiyeok_gaipja = [51648, 50669, 44032, 51077, 51088]"

definition col_imui_gaipja :: ustring where
  "col_imui_gaipja = [51076, 51032, 44032, 51077, 51088]"

definition col_imui_gyesok_gaipja :: ustring where
  "col_imui_gyesok_gaipja = [51076, 51032, 44228, 49549, 44032, 51077, 51088]"

text \<open>
  A row of the long table of lines 26-28: the two identifier columns, the type label
  (\<open>var_name\<close>) and the count (\<open>value_name\<close>).
\<close>

record 'g melted_row =
  m_yeonryeong_gubun :: 'g
  m_sido :: ustring
  gaip_yuhyeong :: ustring
  gaipja_su :: count

text \<open>The \<open>value_vars\<close> of line 27, in the order listed, each with its column.\<close>

definition value_vars :: "(ustring \<times> ('g row \<Rightarrow> count)) list" where
  "value_vars =
     [(col_saeopjang_gaipja, saeopjang_gaipja), (col_jiyeok_gaipja, jiyeok_gaipja),
      (col_imui_gaipja, imui_gaipja), (col_imui_gyesok_gaipja, imui_gyesok_gaipja)]"

definition melted :: "ustring \<Rightarrow> ('g row \<Rightarrow> count) \<Rightarrow> 'g row \<Rightarrow> 'g melted_row" where
  "melted name col r =
     \<lparr>m_yeonryeong_gubun = yeonryeong_gubun r, m_sido = sido r,
      gaip_yuhyeong = name, gaipja_su = col r\<rparr>"

text \<open>
  \<open>DataFrame.melt\<close> stacks the value columns one below the other: the identifier
  columns are repeated once per value column, the label column holds each column name
  once per input row, and the count column is the value columns laid end to end. With
  all four columns of the type \<open>int64\<close> the stacked column has that type too and
  holds the counts as they are.
\<close>

definition df_melted :: "'g row list \<Rightarrow> 'g melted_row list" where
  "df_melted df = concat (map (\<lambda>(name, col). map (melted name col) df) value_vars)"

text \<open>
  The order the specification describes for the long table: the four rows of the first
  input row, then the four of the second, and so on.
\<close>

definition melted_by_input_row :: "'g row list \<Rightarrow> 'g melted_row list" where
  "melted_by_input_row df =
     concat (map (\<lambda>r. map (\<lambda>(name, col). melted name col r) value_vars) df)"

text \<open>
  A row of the aggregate of lines 44-48: the group key, which \<open>reset_index\<close> turns
  into a column, and the three sums.
\<close>

record city_row =
  c_sido :: ustring
  c_saeopjang_gaipja :: count
  c_jiyeok_gaipja :: count
  c_imui_gaipja :: count

text \<open>
  \<open>groupby\<close> (with its default \<open>sort=True\<close>) yields one group per distinct key, the
  keys in ascending order; a group holds the rows with that key.
\<close>

definition group_keys :: "'g row list \<Rightarrow> ustring list" where
  "group_keys df = sort (remdups (map sido df))"

definition city_sum :: "'g row list \<Rightarrow> city_row list" where
  "city_sum df =
     map (\<lambda>k.
            let g = filter (\<lambda>r. sido r = k) df
            in \<lparr>c_sido = k,
                c_saeopjang_gaipja = sum_list (map saeopjang_gaipja g),
                c_jiyeok_gaipja = sum_list (map jiyeok_gaipja g),
                c_imui_gaipja = sum_list (map imui_gaipja g)\<rparr>)
         (group_keys df)"

section \<open>Count columns of any numeric type\<close>

text \<open>
  \<open>read_csv\<close> chooses a type per column: \<open>int64\<close> when every field is an integer
  that fits, \<open>uint64\<close> when some field is \<open>2^63\<close> or more and none is negative, and
  \<open>float64\<close> when a field is missing (it becomes NaN) or is not an integer. An
  integer column holds 64-bit words, read as signed or unsigned; a float is given by
  the number it stands for, or is an infinity or NaN.
\<close>

datatype float64 = Finite real | Infinity bool | Not_a_number

datatype column = Int64 "64 word list" | UInt64 "64 word list" | Float64 "float64 list"

datatype dtype = Int64_type | UInt64_type | Float64_type

fun dtype_of :: "column \<Rightarrow> dtype" where
  "dtype_of (Int64 ws) = Int64_type"
| "dtype_of (UInt64 ws) = UInt64_type"
| "dtype_of (Float64 fs) = Float64_type"

fun column_length :: "column \<Rightarrow> nat" where
  "column_length (Int64 ws) = length ws"
| "column_length (UInt64 ws) = length ws"
| "column_length (Float64 fs) = length fs"

fun words :: "column \<Rightarrow> 64 word list" where
  "words (Int64 ws) = ws"
| "words (UInt64 ws) = ws"
| "words (Float64 fs) = []"

text \<open>
  The conversion of a 64-bit integer to \<open>float64\<close> keeps 53 significant bits and
  rounds to the nearest such number, a tie going to the even one. For a magnitude
  below \<open>2^64\<close>, \<open>excess_bits\<close> is the number of bits beyond 53.
\<close>

definition excess_bits :: "nat \<Rightarrow> nat" where
  "excess_bits n = length (filter (\<lambda>j. 2 ^ (53 + j) \<le> n) [0, 1, 2, 3, 4, 5, 6, 7, 8, 9, 10])"

definition nearest_float :: "nat \<Rightarrow> nat" where
  "nearest_float n =
     (if 2 * (n mod 2 ^ excess_bits n) < 2 ^ excess_bits n \<or>
         (2 * (n mod 2 ^ excess_bits n) = 2 ^ excess_bits n \<and> even (n div 2 ^ excess_bits n))
      then n div 2 ^ excess_bits n
      else n div 2 ^ excess_bits n + 1) * 2 ^ excess_bits n"

definition float_of_int :: "int \<Rightarrow> float64" where
  "float_of_int n =
     Finite (if n < 0 then - real (nearest_float (nat (- n))) else real (nearest_float (nat n)))"

fun as_float64 :: "column \<Rightarrow> float64 list" where
  "as_float64 (Int64 ws) = map (\<lambda>w. float_of_int (sint w)) ws"
| "as_float64 (UInt64 ws) = map (\<lambda>w. float_of_int (uint w)) ws"
| "as_float64 (Float64 fs) = fs"

text \<open>
  Columns laid end to end take their common type: the type they all have, and
  \<open>float64\<close> when they differ (\<open>int64\<close> beside \<open>uint64\<close> included), each integer
  column being converted.
\<close>

definition stack :: "column list \<Rightarrow> column" where
  "stack cs =
     (if list_all (\<lambda>c. dtype_of c = Int64_type) cs then Int64 (concat (map words cs))
      else if list_all (\<lambda>c. dtype_of c = UInt64_type) cs then UInt64 (concat (map words cs))
      else Float64 (concat (map as_float64 cs)))"

text \<open>
  The table by columns, restricted to the columns line 26-27 name, and the long table
  by columns. In a data frame all columns have the same length.
\<close>

record 'g frame =
  yeonryeong_gubun_col :: "'g list"
  sido_col :: "ustring list"
  saeopjang_gaipja_col :: column
  jiyeok_gaipja_col :: column
  imui_gaipja_col :: column
  imui_gyesok_gaipja_col :: column

definition rows :: "'g frame \<Rightarrow> nat" where
  "rows F = length (sido_col F)"

definition frame_ok :: "'g frame \<Rightarrow> bool" where
  "frame_ok F =
     (length (yeonryeong_gubun_col F) = rows F \<and>
      column_length (saeopjang_gaipja_col F) = rows F \<and>
      column_length (jiyeok_gaipja_col F) = rows F \<and>
      column_length (imui_gaipja_col F) = rows F \<and>
      column_length (imui_gyesok_gaipja_col F) = rows F)"

text \<open>The four count columns all have the type \<open>t\<close>.\<close>

definition all_of_type :: "dtype \<Rightarrow> 'g frame \<Rightarrow> bool" where
  "all_of_type t F =
     (dtype_of (saeopjang_gaipja_col F) = t \<and>
      dtype_of (jiyeok_gaipja_col F) = t \<and>
      dtype_of (imui_gaipja_col F) = t \<and>
      dtype_of (imui_gyesok_gaipja_col F) = t)"

definition same_integer_type :: "'g frame \<Rightarrow> bool" where
  "same_integer_type F = (all_of_type Int64_type F \<or> all_of_type UInt64_type F)"

record 'g melted_frame =
  m_yeonryeong_gubun_col :: "'g list"
  m_sido_col :: "ustring list"
  gaip_yuhyeong_col :: "ustring list"
  gaipja_su_col :: column

text \<open>
  \<open>DataFrame.melt\<close> as called in lines 26-28, on columns: the identifier columns
  four times over, each column name once per input row, and the four value columns
  stacked.
\<close>

definition melt :: "'g frame \<Rightarrow> 'g melted_frame" where
  "melt F =
     \<lparr>m_yeonryeong_gubun_col = concat (replicate 4 (yeonryeong_gubun_col F)),
      m_sido_col = concat (replicate 4 (sido_col F)),
      gaip_yuhyeong_col =
        concat (map (replicate (rows F))
          [col_saeopjang_gaipja, col_jiyeok_gaipja, col_imui_gaipja, col_imui_gyesok_gaipja]),
      gaipja_su_col =
        stack [saeopjang_gaipja_col F, jiyeok_gaipja_col F, imui_gaipja_col F,
               imui_gyesok_gaipja_col F]\<rparr>"

text \<open>The columns of a table given by rows, and of a long table given by rows.\<close>

definition frame_of :: "'g row list \<Rightarrow> 'g frame" where
  "frame_of df =
     \<lparr>yeonryeong_gubun_col = map yeonryeong_gubun df,
      sido_col = map sido df,
      saeopjang_gaipja_col = Int64 (map saeopjang_gaipja df),
      jiyeok_gaipja_col = Int64 (map jiyeok_gaipja df),
      imui_gaipja_col = Int64 (map imui_gaipja df),
      imui_gyesok_gaipja_col = Int64 (map imui_gyesok_gaipja df)\<rparr>"

definition melted_frame_of :: "'g melted_row list \<Rightarrow> 'g melted_frame" where
  "melted_frame_of m =
     \<lparr>m_yeonryeong_gubun_col = map m_yeonryeong_gubun m,
      m_sido_col = map m_sido m,
      gaip_yuhyeong_col = map gaip_yuhyeong m,
      gaipja_su_col = Int64 (map gaipja_su m)\<rparr>"

text \<open>
  The number an entry of a column stands for, if any, and the sum of such numbers.
  With them, the two sides of the specification's sentence on sums: the sum of the
  four counts of input row \<open>i\<close>, and the sum of the counts of its four rows in the
  long table, which stand at the positions \<open>k * n + i\<close>.
\<close>

fun number :: "float64 \<Rightarrow> real option" where
  "number (Finite x) = Some x"
| "number (Infinity b) = None"
| "number Not_a_number = None"

fun entry :: "column \<Rightarrow> nat \<Rightarrow> real option" where
  "entry (Int64 ws) i = Some (real_of_int (sint (ws ! i)))"
| "entry (UInt64 ws) i = Some (real_of_int (uint (ws ! i)))"
| "entry (Float64 fs) i = number (fs ! i)"

fun total :: "real option list \<Rightarrow> real option" where
  "total [] = Some 0"
| "total (x # xs) =
     (case x of None \<Rightarrow> None | Some a \<Rightarrow> (case total xs of None \<Rightarrow> None | Some b \<Rightarrow> Some (a + b)))"

definition row_total :: "'g frame \<Rightarrow> nat \<Rightarrow> real option" where
  "row_total F i =
     total [entry (saeopjang_gaipja_col F) i, entry (jiyeok_gaipja_col F) i,
            entry (imui_gaipja_col F) i, entry (imui_gyesok_gaipja_col F) i]"

definition melted_total :: "'g frame \<Rightarrow> nat \<Rightarrow> real option" where
  "melted_total F i =
     total (map (\<lambda>k. entry (gaipja_su_col (melt F)) (k * rows F + i)) [0, 1, 2, 3])"

section \<open>Charts and the document\<close>

text \<open>
  \<open>include_plotlyjs\<close> as the script passes it to \<open>to_html\<close>: \<open>'cdn'\<close> (line 63)
  or \<open>False\<close> (lines 64-65).
\<close>

datatype include_plotlyjs = Cdn | No_plotlyjs

text \<open>
  The fragment \<open>to_html\<close> returns is kept as the call that made it: the figure and
  the two arguments. According to the library's documentation the fragment is the
  figure's \<open>div\<close>, preceded by a script tag that loads plotly.js from the CDN when
  \<open>include_plotlyjs\<close> is \<open>'cdn'\<close>, and without a reference to the library when it
  is \<open>False\<close>. The identifier the library makes up for the \<open>div\<close> is not
  represented.
\<close>

record 'fig fragment =
  figure :: 'fig
  full_html :: bool
  plotlyjs :: include_plotlyjs

definition to_html :: "'fig \<Rightarrow> bool \<Rightarrow> include_plotlyjs \<Rightarrow> 'fig fragment" where
  "to_html fig full inc = \<lparr>figure = fig, full_html = full, plotlyjs = inc\<rparr>"

definition includes_library :: "'fig fragment \<Rightarrow> bool" where
  "includes_library d = (plotlyjs d = Cdn)"

text \<open>
  The document of lines 68-307 as a tree: an element with its tag, its attributes and
  its children, a run of static text (prose, the style sheet), or an interpolated
  value. The text itself, the comments and the doctype are not represented.
\<close>

datatype 'f html =
  Element string "(string \<times> string) list" "'f html list"
| Prose
| Interpolated 'f

definition html_template :: "'f \<Rightarrow> 'f \<Rightarrow> 'f \<Rightarrow> 'f html" where
  "html_template div_age div_region div_compare =
     Element ''html'' [(''lang'', ''ko'')]
      [Element ''head'' []
        [Element ''meta'' [(''charset'', ''UTF-8'')] [],
         Element ''meta''
           [(''name'', ''viewport''), (''content'', ''width=device-width, initial-scale=1.0'')] [],
         Element ''title'' [] [Prose],
         Element ''style'' [] [Prose]],
       Element ''body'' []
        [Element ''nav'' [(''class'', ''sidebar'')]
          [Element ''div'' [(''class'', ''sidebar-title'')] [Prose],
           Element ''div'' [(''class'', ''sidebar-nav'')]
            [Element ''ul'' []
              [Element ''li'' [] [Element ''a'' [(''href'', ''#overview'')] [Prose]],
               Element ''li'' [] [Element ''a'' [(''href'', ''#age-analysis'')] [Prose]],
               Element ''li'' [] [Element ''a'' [(''href'', ''#region-analysis'')] [Prose]],
               Element ''li'' [] [Element ''a'' [(''href'', ''#comparison'')] [Prose]]]],
           Element ''div'' [(''class'', ''sidebar-footer'')]
            [Element ''p'' [] [Prose], Element ''p'' [] [Prose]]],
         Element ''main'' [(''class'', ''main-content'')]
          [Element ''div'' [(''class'', ''container'')]
            [Element ''header'' []
              [Element ''h1'' [(''class'', ''title'')] [Prose],
               Element ''p''
                 [(''class'', ''subtitle''), (''style'', ''color: #666; font-size: 1.1rem;'')]
                 [Prose]],
             Element ''section'' [(''id'', ''overview'')]
              [Element ''h2'' [] [Prose],
               Element ''div'' [(''class'', ''callout'')] [Element ''strong'' [] [Prose], Prose],
               Element ''p'' [] [Prose, Element ''strong'' [] [Prose], Prose],
               Element ''ul'' []
                [Element ''li'' [] [Prose], Element ''li'' [] [Prose],
                 Element ''li'' [] [Prose]]],
             Element ''section'' [(''id'', ''age-analysis'')]
              [Element ''h2'' [] [Prose],
               Element ''p'' [] [Prose],
               Element ''div'' [(''class'', ''chart-container'')] [Interpolated div_age],
               Element ''p'' [] [Prose]],
             Element ''section'' [(''id'', ''region-analysis'')]
              [Element ''h2'' [] [Prose],
               Element ''p'' [] [Prose],
               Element ''div'' [(''class'', ''chart-container'')] [Interpolated div_region]],
             Element ''section'' [(''id'', ''comparison'')]
              [Element ''h2'' [] [Prose],
               Element ''p'' []
                [Prose, Element ''strong'' [] [Prose], Prose, Element ''strong'' [] [Prose],
                 Prose],
               Element ''div'' [(''class'', ''chart-container'')] [Interpolated div_compare],
               Element ''p'' [] [Prose]],
             Element ''footer''
               [(''style'',
                 ''margin-top: 4rem; border-top: 1px solid #eee; padding-top: 1rem; color: #888; text-align: center;'')]
               [Prose]]]]]"

text \<open>Reading the document: the elements that satisfy a test, in document order.\<close>

fun find_all :: "(string \<Rightarrow> (string \<times> string) list \<Rightarrow> bool) \<Rightarrow> 'f html \<Rightarrow> 'f html list" where
  "find_all p (Element t as cs) =
     (if p t as then [Element t as cs] else []) @ concat (map (find_all p) cs)"
| "find_all p Prose = []"
| "find_all p (Interpolated f) = []"

fun interpolations :: "'f html \<Rightarrow> 'f list" where
  "interpolations (Element t as cs) = concat (map interpolations cs)"
| "interpolations Prose = []"
| "interpolations (Interpolated f) = [f]"

fun attr :: "string \<Rightarrow> 'f html \<Rightarrow> string option" where
  "attr k (Element t as cs) = map_of as k"
| "attr k Prose = None"
| "attr k (Interpolated f) = None"

definition chart_containers :: "'f html \<Rightarrow> 'f html list" where
  "chart_containers doc =
     find_all (\<lambda>t as. t = ''div'' \<and> map_of as ''class'' = Some ''chart-container'') doc"

definition nav_links :: "'f html \<Rightarrow> 'f html list" where
  "nav_links doc =
     concat (map (find_all (\<lambda>t as. t = ''a'')) (find_all (\<lambda>t as. t = ''nav'') doc))"

definition sections :: "'f html \<Rightarrow> 'f html list" where
  "sections doc = find_all (\<lambda>t as. t = ''section'') doc"

section \<open>The script\<close>

text \<open>
  What a path holds: a sequence of bytes, or a document this script wrote.
\<close>

datatype 'fig content = Bytes "8 word list" | Document "'fig fragment html"

text \<open>
  The library calls whose results the script only passes on: \<open>read_csv\<close> on what
  the input path holds, and the three chart builders of lines 30, 36 and 50 (each with
  its \<open>update_layout\<close>). Any of them may raise.
\<close>

record ('g, 'fig) library =
  read_csv :: "'fig content \<Rightarrow> error + 'g loaded_row list"
  sunburst :: "'g melted_row list \<Rightarrow> error + 'fig"
  treemap :: "'g row list \<Rightarrow> error + 'fig"
  scatter :: "city_row list \<Rightarrow> error + 'fig"

text \<open>Lines 26-307: the tables, the figures, the fragments and the document.\<close>

definition render :: "('g, 'fig) library \<Rightarrow> 'g row list \<Rightarrow> error + 'fig fragment html" where
  "render lib df =
     (case sunburst lib (df_melted df) of
        Inl e \<Rightarrow> Inl e
      | Inr fig_age \<Rightarrow>
          (case treemap lib df of
             Inl e \<Rightarrow> Inl e
           | Inr fig_region \<Rightarrow>
               (case scatter lib (city_sum df) of
                  Inl e \<Rightarrow> Inl e
                | Inr fig_compare \<Rightarrow>
                    Inr (html_template
                          (to_html fig_age False Cdn)
                          (to_html fig_region False No_plotlyjs)
                          (to_html fig_compare False No_plotlyjs)))))"

text \<open>
  The world the script runs in: the files by path and the lines printed so far. Every
  path can be written.
\<close>

record 'fig world =
  files :: "ustring \<Rightarrow> 'fig content option"
  stdout :: "ustring list"

definition FILE_PATH :: ustring where
  "FILE_PATH =
     [44397, 48124, 50672, 44552, 44277, 45800, 95, 49884, 44400, 44396, 48324, 32, 52397,
      45380, 44228, 52789, 32, 44032, 51077, 51088, 32, 54788, 54889, 95, 50, 48, 50, 52,
      49, 50, 51, 49, 46, 99, 115, 118]"

definition OUTPUT_FILE :: ustring where
  "OUTPUT_FILE = map of_char ''national_pension_analysis_report.html''"

text \<open>
  How the process ends: \<open>exit(n)\<close> or the end of the script (status 0), or an
  exception nobody catches, for which the interpreter exits with status 1.
\<close>

datatype outcome = Exit nat | Uncaught error

fun exit_status :: "outcome \<Rightarrow> nat" where
  "exit_status (Exit n) = n"
| "exit_status (Uncaught e) = 1"

text \<open>Lines 18-19: the table with its province column.\<close>

definition load :: "('g, 'fig) library \<Rightarrow> 'fig content \<Rightarrow> error + 'g row list" where
  "load lib c = (case read_csv lib c of Inl e \<Rightarrow> Inl e | Inr loaded \<Rightarrow> add_sido loaded)"

text \<open>Lines 10-313.\<close>

definition run :: "('g, 'fig) library \<Rightarrow> 'fig world \<Rightarrow> 'fig world \<times> outcome" where
  "run lib w =
     (case files w FILE_PATH of
        None \<Rightarrow>
          (w\<lparr>stdout := stdout w @ [map of_char ''Error: File not found at '' @ FILE_PATH]\<rparr>,
           Exit 1)
      | Some c \<Rightarrow>
          (case load lib c of
             Inl e \<Rightarrow> (w, Uncaught e)
           | Inr df \<Rightarrow>
               (case render lib df of
                  Inl e \<Rightarrow> (w, Uncaught e)
                | Inr doc \<Rightarrow>
                    (w\<lparr>files := (files w)(OUTPUT_FILE \<mapsto> Document doc),
                       stdout := stdout w @
                         [map of_char ''Successfully generated report: '' @ OUTPUT_FILE]\<rparr>,
                     Exit 0))))"

section \<open>Example inputs\<close>

text \<open>
  A table of two rows, the first with the region name of the specification's example
  (Seoul, Gangnam district), and a table with a blank region name.
\<close>

definition seoul_gangnam :: ustring where
  "seoul_gangnam = [49436, 50872, 53945, 48324, 49884, 32, 44053, 45224, 44396]"

definition seoul :: ustring where
  "seoul = [49436, 50872, 53945, 48324, 49884]"

definition busan_haeundae :: ustring where
  "busan_haeundae = [48512, 49328, 44305, 50669, 49884, 32, 54644, 50868, 45824, 44396]"

definition busan :: ustring where
  "busan = [48512, 49328, 44305, 50669, 49884]"

definition example_loaded :: "nat loaded_row list" where
  "example_loaded =
     [\<lparr>sigungumyeong = Str seoul_gangnam, yeonryeong_gubun = 18, saeopjang_gaipja = 10,
       jiyeok_gaipja = 20, imui_gaipja = 30, imui_gyesok_gaipja = 40\<rparr>,
      \<lparr>sigungumyeong = Str busan_haeundae, yeonryeong_gubun = 19, saeopjang_gaipja = 1,
       jiyeok_gaipja = 2, imui_gaipja = 3, imui_gyesok_gaipja = 4\<rparr>]"

definition example_df :: "nat row list" where
  "example_df =
     [\<lparr>sigungumyeong = Str seoul_gangnam, yeonryeong_gubun = 18, saeopjang_gaipja = 10,
       jiyeok_gaipja = 20, imui_gaipja = 30, imui_gyesok_gaipja = 40, sido = seoul\<rparr>,
      \<lparr>sigungumyeong = Str busan_haeundae, yeonryeong_gubun = 19, saeopjang_gaipja = 1,
       jiyeok_gaipja = 2, imui_gaipja = 3, imui_gyesok_gaipja = 4, sido = busan\<rparr>]"

definition blank_loaded :: "nat loaded_row list" where
  "blank_loaded =
     [\<lparr>sigungumyeong = Str [32, 32], yeonryeong_gubun = 18, saeopjang_gaipja = 10,
       jiyeok_gaipja = 20, imui_gaipja = 30, imui_gyesok_gaipja = 40\<rparr>]"

text \<open>
  A library whose \<open>read_csv\<close> delivers the given table and whose chart builders
  succeed, and worlds without and with an input file.
\<close>

definition example_library :: "nat loaded_row list \<Rightarrow> (nat, nat) library" where
  "example_library t =
     \<lparr>read_csv = (\<lambda>c. Inr t), sunburst = (\<lambda>m. Inr 1), treemap = (\<lambda>d. Inr 2),
      scatter = (\<lambda>c. Inr 3)\<rparr>"

definition empty_world :: "nat world" where
  "empty_world = \<lparr>files = Map.empty, stdout = []\<rparr>"

definition example_world :: "nat world" where
  "example_world = \<lparr>files = [FILE_PATH \<mapsto> Bytes []], stdout = []\<rparr>"

text \<open>
  A table of one row whose workplace count is \<open>2^63 + 1\<close>, so that its column has
  the type \<open>uint64\<close> beside three columns of the type \<open>int64\<close>.
\<close>

definition mixed_frame :: "nat frame" where
  "mixed_frame =
     \<lparr>yeonryeong_gubun_col = [18], sido_col = [seoul],
      saeopjang_gaipja_col = UInt64 [9223372036854775809],
      jiyeok_gaipja_col = Int64 [20], imui_gaipja_col = Int64 [30],
      imui_gyesok_gaipja_col = Int64 [40]\<rparr>"

definition example_document :: "nat fragment html" where
  "example_document =
     html_template (to_html 1 False Cdn) (to_html 2 False No_plotlyjs)
       (to_html 3 False No_plotlyjs)"

section \<open>Province derivation\<close>

lemma first_of_split_Str:
  assumes "dropWhile is_space s \<noteq> []"
  shows "first_of_split (Str s) = Inr (first_token s)"
proof -
  from assms obtain c cs where r: "dropWhile is_space s = c # cs"
    by (cases "dropWhile is_space s") auto
  have "\<not> is_space (hd (dropWhile is_space s))"
    using assms by (rule hd_dropWhile)
  then have "\<not> is_space c" using r by simp
  then have "first_token s = c # takeWhile (\<lambda>x. \<not> is_space x) cs"
    using r by (simp add: first_token_def)
  moreover have "first_of_split (Str s) = Inr (c # takeWhile (\<lambda>x. \<not> is_space x) cs)"
    using r by (simp add: first_of_split_def split.simps [of s])
  ultimately show ?thesis by simp
qed

lemma first_of_split_blank:
  assumes "dropWhile is_space s = []"
  shows "first_of_split (Str s) = Inl IndexError"
proof -
  have "split s = []"
    by (subst split.simps) (simp only: assms list.case)
  then show ?thesis by (simp add: first_of_split_def)
qed

lemma add_sido_length: "add_sido df = Inr df' \<Longrightarrow> length df' = length df"
  by (induction df arbitrary: df') (auto split: sum.splits)

lemma add_sido_nth:
  "add_sido df = Inr df' \<Longrightarrow> i < length df \<Longrightarrow>
     first_of_split (sigungumyeong (df ! i)) = Inr (sido (df' ! i)) \<and>
     loaded_row.truncate (df' ! i) = df ! i"
proof (induction df arbitrary: df' i)
  case Nil
  then show ?case by simp
next
  case (Cons r rs)
  then show ?case
    by (cases i)
      (auto split: sum.splits
        simp: loaded_row.extend_def row.fields_def loaded_row.truncate_def)
qed

lemma add_sido_fails:
  "r \<in> set df \<Longrightarrow> first_of_split (sigungumyeong r) = Inl e \<Longrightarrow> \<exists>e'. add_sido df = Inl e'"
  by (induction df) (auto split: sum.splits)

lemma add_sido_example: "add_sido example_loaded = Inr example_df"
  by (simp add: example_loaded_def example_df_def first_of_split_def split.simps is_space_def
      seoul_gangnam_def busan_haeundae_def seoul_def busan_def
      loaded_row.extend_def row.fields_def)

lemma add_sido_blank: "add_sido blank_loaded = Inl IndexError"
  by (simp add: blank_loaded_def first_of_split_def split.simps is_space_def)

text \<open>
  C2: for every row whose region name contains a character that is not whitespace, the
  lambda of line 19 returns the first whitespace-separated token of the region name, and
  that token is the row's province in the table with the new column.
\<close>

theorem province_is_first_token:
  assumes "add_sido df = Inr df'" and "i < length df"
    and "sigungumyeong (df ! i) = Str s" and "\<exists>c\<in>set s. \<not> is_space c"
  shows "first_of_split (Str s) = Inr (first_token s) \<and> sido (df' ! i) = first_token s"
proof -
  from assms(4) have "dropWhile is_space s \<noteq> []"
    by (simp add: dropWhile_eq_Nil_conv)
  then have a: "first_of_split (Str s) = Inr (first_token s)"
    by (rule first_of_split_Str)
  from add_sido_nth [OF assms(1,2)] assms(3) a show ?thesis by simp
qed

theorem province_is_first_token_witness:
  "add_sido example_loaded = Inr example_df \<and> (0::nat) < length example_loaded \<and>
   sigungumyeong (example_loaded ! 0) = Str seoul_gangnam \<and>
   (\<exists>c\<in>set seoul_gangnam. \<not> is_space c) \<and>
   first_token seoul_gangnam = seoul \<and>
   first_of_split (Str seoul_gangnam) = Inr seoul \<and> sido (example_df ! 0) = seoul"
proof -
  have h1: "add_sido example_loaded = Inr example_df" by (rule add_sido_example)
  have h2: "(0::nat) < length example_loaded" by (simp add: example_loaded_def)
  have h3: "sigungumyeong (example_loaded ! 0) = Str seoul_gangnam"
    by (simp add: example_loaded_def)
  have h4: "\<exists>c\<in>set seoul_gangnam. \<not> is_space c"
    by (simp add: seoul_gangnam_def is_space_def)
  have h5: "first_token seoul_gangnam = seoul"
    by (simp add: first_token_def seoul_gangnam_def seoul_def is_space_def)
  from province_is_first_token [OF h1 h2 h3 h4] h1 h2 h3 h4 h5 show ?thesis by simp
qed

section \<open>The long table\<close>

lemma df_melted_append:
  "df_melted df =
     map (melted col_saeopjang_gaipja saeopjang_gaipja) df @
     map (melted col_jiyeok_gaipja jiyeok_gaipja) df @
     map (melted col_imui_gaipja imui_gaipja) df @
     map (melted col_imui_gyesok_gaipja imui_gyesok_gaipja) df"
  by (simp add: df_melted_def value_vars_def)

lemma df_melted_nth:
  assumes "i < length df"
  shows "df_melted df ! i = melted col_saeopjang_gaipja saeopjang_gaipja (df ! i)"
    and "df_melted df ! (length df + i) = melted col_jiyeok_gaipja jiyeok_gaipja (df ! i)"
    and "df_melted df ! (2 * length df + i) = melted col_imui_gaipja imui_gaipja (df ! i)"
    and "df_melted df ! (3 * length df + i) =
           melted col_imui_gyesok_gaipja imui_gyesok_gaipja (df ! i)"
  using assms by (simp_all add: df_melted_append nth_append)

lemma df_melted_position:
  fixes df :: "'g row list"
  assumes "k < 4" and "i < length df"
  shows "df_melted df ! (k * length df + i) =
           melted (fst (value_vars ! k :: ustring \<times> ('g row \<Rightarrow> count))) (snd (value_vars ! k))
             (df ! i)"
proof -
  from assms(1) consider "k = 0" | "k = 1" | "k = 2" | "k = 3" by linarith
  then show ?thesis
    using df_melted_nth [OF assms(2)] by cases (simp_all add: value_vars_def)
qed

lemma sum_below_4:
  fixes f :: "nat \<Rightarrow> count"
  shows "(\<Sum>k<4. f k) = f 0 + f 1 + f 2 + f 3"
  by (simp add: eval_nat_numeral)

text \<open>
  The table by rows: the long table has four times as many rows as the input table,
  and the counts of the four rows that stem from input row \<open>i\<close> add up to the sum of
  the row's four counts.
\<close>

lemma df_melted_row_count_and_sums:
  "length (df_melted df) = 4 * length df \<and>
   (\<forall>i<length df.
      (\<Sum>k<4. gaipja_su (df_melted df ! (k * length df + i))) =
        saeopjang_gaipja (df ! i) + jiyeok_gaipja (df ! i) + imui_gaipja (df ! i) +
        imui_gyesok_gaipja (df ! i))"
proof (intro conjI allI impI)
  show "length (df_melted df) = 4 * length df"
    by (simp add: df_melted_append)
next
  fix i assume i: "i < length df"
  show "(\<Sum>k<4. gaipja_su (df_melted df ! (k * length df + i))) =
        saeopjang_gaipja (df ! i) + jiyeok_gaipja (df ! i) + imui_gaipja (df ! i) +
        imui_gyesok_gaipja (df ! i)"
    using df_melted_nth [OF i] by (simp add: sum_below_4 melted_def)
qed

text \<open>
  The table by columns, with all count columns of the type \<open>int64\<close>, is melted as
  the table by rows is.
\<close>

lemma melt_frame_of: "melt (frame_of df) = melted_frame_of (df_melted df)"
  by (simp add: melt_def frame_of_def melted_frame_of_def df_melted_append stack_def rows_def
      melted_def comp_def eval_nat_numeral map_replicate_const)

lemma column_length_as_float64: "length (as_float64 c) = column_length c"
  by (cases c) simp_all

lemma column_length_stack:
  "column_length (stack [a, b, c, d]) =
     column_length a + column_length b + column_length c + column_length d"
proof -
  have w: "length (words x) = column_length x" if "dtype_of x \<noteq> Float64_type" for x
    using that by (cases x) simp_all
  show ?thesis
    by (simp add: stack_def column_length_as_float64 w)
qed

lemma dtype_of_Int64: "dtype_of c = Int64_type \<Longrightarrow> \<exists>ws. c = Int64 ws"
  by (cases c) simp_all

lemma dtype_of_UInt64: "dtype_of c = UInt64_type \<Longrightarrow> \<exists>ws. c = UInt64 ws"
  by (cases c) simp_all

lemma melt_lengths:
  assumes "frame_ok F"
  shows "column_length (gaipja_su_col (melt F)) = 4 * rows F"
    and "length (m_yeonryeong_gubun_col (melt F)) = 4 * rows F"
    and "length (m_sido_col (melt F)) = 4 * rows F"
    and "length (gaip_yuhyeong_col (melt F)) = 4 * rows F"
  using assms
  by (simp_all add: melt_def frame_ok_def column_length_stack rows_def eval_nat_numeral)

lemma melt_identifiers:
  assumes "frame_ok F" and "k < 4" and "i < rows F"
  shows "m_yeonryeong_gubun_col (melt F) ! (k * rows F + i) = yeonryeong_gubun_col F ! i"
    and "m_sido_col (melt F) ! (k * rows F + i) = sido_col F ! i"
proof -
  from assms(2) consider "k = 0" | "k = 1" | "k = 2" | "k = 3" by linarith
  then have
    "m_yeonryeong_gubun_col (melt F) ! (k * rows F + i) = yeonryeong_gubun_col F ! i \<and>
     m_sido_col (melt F) ! (k * rows F + i) = sido_col F ! i"
    using assms(1,3)
    by cases (simp_all add: melt_def frame_ok_def rows_def eval_nat_numeral nth_append)
  then show "m_yeonryeong_gubun_col (melt F) ! (k * rows F + i) = yeonryeong_gubun_col F ! i"
    and "m_sido_col (melt F) ! (k * rows F + i) = sido_col F ! i"
    by simp_all
qed

lemma nth_four_blocks:
  assumes "length a = n" "length b = n" "length c = n" "length d = n" "i < n"
  shows "(a @ b @ c @ d) ! i = a ! i" "(a @ b @ c @ d) ! (n + i) = b ! i"
    "(a @ b @ c @ d) ! (2 * n + i) = c ! i" "(a @ b @ c @ d) ! (3 * n + i) = d ! i"
  using assms by (simp_all add: nth_append)

lemma melt_int64:
  assumes "frame_ok F" and "all_of_type Int64_type F" and "i < rows F"
  shows "dtype_of (gaipja_su_col (melt F)) = Int64_type"
    and "(\<Sum>k<4. words (gaipja_su_col (melt F)) ! (k * rows F + i)) =
           words (saeopjang_gaipja_col F) ! i + words (jiyeok_gaipja_col F) ! i +
           words (imui_gaipja_col F) ! i + words (imui_gyesok_gaipja_col F) ! i"
    and "melted_total F i = row_total F i"
proof -
  from assms(2) obtain a b c d
    where cols: "saeopjang_gaipja_col F = Int64 a" "jiyeok_gaipja_col F = Int64 b"
      "imui_gaipja_col F = Int64 c" "imui_gyesok_gaipja_col F = Int64 d"
    unfolding all_of_type_def by (blast dest: dtype_of_Int64)
  from assms(1) cols have len: "length a = rows F" "length b = rows F" "length c = rows F"
      "length d = rows F"
    by (simp_all add: frame_ok_def)
  have m: "gaipja_su_col (melt F) = Int64 (a @ b @ c @ d)"
    using cols by (simp add: melt_def stack_def)
  note nth = nth_four_blocks [OF len assms(3)]
  show "dtype_of (gaipja_su_col (melt F)) = Int64_type"
    by (simp add: m)
  show "(\<Sum>k<4. words (gaipja_su_col (melt F)) ! (k * rows F + i)) =
           words (saeopjang_gaipja_col F) ! i + words (jiyeok_gaipja_col F) ! i +
           words (imui_gaipja_col F) ! i + words (imui_gyesok_gaipja_col F) ! i"
    using nth by (simp add: m cols sum_below_4)
  show "melted_total F i = row_total F i"
    using nth by (simp add: melted_total_def row_total_def m cols)
qed

lemma melt_uint64:
  assumes "frame_ok F" and "all_of_type UInt64_type F" and "i < rows F"
  shows "dtype_of (gaipja_su_col (melt F)) = UInt64_type"
    and "(\<Sum>k<4. words (gaipja_su_col (melt F)) ! (k * rows F + i)) =
           words (saeopjang_gaipja_col F) ! i + words (jiyeok_gaipja_col F) ! i +
           words (imui_gaipja_col F) ! i + words (imui_gyesok_gaipja_col F) ! i"
    and "melted_total F i = row_total F i"
proof -
  from assms(2) obtain a b c d
    where cols: "saeopjang_gaipja_col F = UInt64 a" "jiyeok_gaipja_col F = UInt64 b"
      "imui_gaipja_col F = UInt64 c" "imui_gyesok_gaipja_col F = UInt64 d"
    unfolding all_of_type_def by (blast dest: dtype_of_UInt64)
  from assms(1) cols have len: "length a = rows F" "length b = rows F" "length c = rows F"
      "length d = rows F"
    by (simp_all add: frame_ok_def)
  have m: "gaipja_su_col (melt F) = UInt64 (a @ b @ c @ d)"
    using cols by (simp add: melt_def stack_def)
  note nth = nth_four_blocks [OF len assms(3)]
  show "dtype_of (gaipja_su_col (melt F)) = UInt64_type"
    by (simp add: m)
  show "(\<Sum>k<4. words (gaipja_su_col (melt F)) ! (k * rows F + i)) =
           words (saeopjang_gaipja_col F) ! i + words (jiyeok_gaipja_col F) ! i +
           words (imui_gaipja_col F) ! i + words (imui_gyesok_gaipja_col F) ! i"
    using nth by (simp add: m cols sum_below_4)
  show "melted_total F i = row_total F i"
    using nth by (simp add: melted_total_def row_total_def m cols)
qed

lemma melt_same_integer_type:
  assumes "frame_ok F" and "same_integer_type F" and "i < rows F"
  shows "dtype_of (gaipja_su_col (melt F)) = dtype_of (saeopjang_gaipja_col F)"
    and "(\<Sum>k<4. words (gaipja_su_col (melt F)) ! (k * rows F + i)) =
           words (saeopjang_gaipja_col F) ! i + words (jiyeok_gaipja_col F) ! i +
           words (imui_gaipja_col F) ! i + words (imui_gyesok_gaipja_col F) ! i"
    and "melted_total F i = row_total F i"
proof -
  from assms(2) consider "all_of_type Int64_type F" | "all_of_type UInt64_type F"
    unfolding same_integer_type_def by blast
  then have
    "dtype_of (gaipja_su_col (melt F)) = dtype_of (saeopjang_gaipja_col F) \<and>
     (\<Sum>k<4. words (gaipja_su_col (melt F)) ! (k * rows F + i)) =
           words (saeopjang_gaipja_col F) ! i + words (jiyeok_gaipja_col F) ! i +
           words (imui_gaipja_col F) ! i + words (imui_gyesok_gaipja_col F) ! i \<and>
     melted_total F i = row_total F i"
  proof cases
    case 1
    with melt_int64 [OF assms(1) 1 assms(3)] show ?thesis
      by (simp add: all_of_type_def)
  next
    case 2
    with melt_uint64 [OF assms(1) 2 assms(3)] show ?thesis
      by (simp add: all_of_type_def)
  qed
  then show "dtype_of (gaipja_su_col (melt F)) = dtype_of (saeopjang_gaipja_col F)"
    and "(\<Sum>k<4. words (gaipja_su_col (melt F)) ! (k * rows F + i)) =
           words (saeopjang_gaipja_col F) ! i + words (jiyeok_gaipja_col F) ! i +
           words (imui_gaipja_col F) ! i + words (imui_gyesok_gaipja_col F) ! i"
    and "melted_total F i = row_total F i"
    by simp_all
qed

text \<open>
  C1, as stated: for every input table the counts of the four melted rows of an input
  row add up to the sum of the row's four counts. In the table whose workplace count is
  \<open>2^63 + 1\<close> the stacked column is of the type \<open>float64\<close>, the count becomes
  \<open>2^63\<close>, and the two sums differ by one.
\<close>

theorem melt_mixed_types_counterexample:
  "frame_ok mixed_frame \<and>
   gaipja_su_col (melt mixed_frame) =
     Float64 [Finite 9223372036854775808, Finite 20, Finite 30, Finite 40] \<and>
   melted_total mixed_frame 0 = Some 9223372036854775898 \<and>
   row_total mixed_frame 0 = Some 9223372036854775899 \<and>
   melted_total mixed_frame 0 \<noteq> row_total mixed_frame 0"
  by (simp add: frame_ok_def row_total_def melted_total_def rows_def melt_def mixed_frame_def
      stack_def float_of_int_def nearest_float_def excess_bits_def)

text \<open>
  C1, amended: for every input table the long table has four times as many rows as the
  input table; and when the four count columns all have the same integer type (all
  \<open>int64\<close> or all \<open>uint64\<close>), the stacked column has that type too, and the counts
  of the four rows that stem from input row \<open>i\<close> (they stand \<open>i\<close> places into each of
  the four blocks and carry the row's identifier columns) add up to the sum of the
  row's four counts, as 64-bit sums and as sums of the numbers they stand for.
\<close>

theorem melt_row_count_and_sums:
  assumes "frame_ok F"
  shows "column_length (gaipja_su_col (melt F)) = 4 * rows F \<and>
         length (m_yeonryeong_gubun_col (melt F)) = 4 * rows F \<and>
         length (m_sido_col (melt F)) = 4 * rows F \<and>
         length (gaip_yuhyeong_col (melt F)) = 4 * rows F \<and>
         (same_integer_type F \<longrightarrow>
            (\<forall>i<rows F.
               dtype_of (gaipja_su_col (melt F)) = dtype_of (saeopjang_gaipja_col F) \<and>
               (\<Sum>k<4. words (gaipja_su_col (melt F)) ! (k * rows F + i)) =
                 words (saeopjang_gaipja_col F) ! i + words (jiyeok_gaipja_col F) ! i +
                 words (imui_gaipja_col F) ! i + words (imui_gyesok_gaipja_col F) ! i \<and>
               melted_total F i = row_total F i \<and>
               (\<forall>k<4. m_yeonryeong_gubun_col (melt F) ! (k * rows F + i) =
                         yeonryeong_gubun_col F ! i \<and>
                       m_sido_col (melt F) ! (k * rows F + i) = sido_col F ! i)))"
  using melt_lengths [OF assms] melt_same_integer_type [OF assms] melt_identifiers [OF assms]
  by simp

theorem melt_row_count_and_sums_witness:
  "frame_ok (frame_of example_df) \<and> same_integer_type (frame_of example_df) \<and>
   (1::nat) < rows (frame_of example_df) \<and>
   column_length (gaipja_su_col (melt (frame_of example_df))) = 8 \<and>
   (\<Sum>k<4. words (gaipja_su_col (melt (frame_of example_df))) !
             (k * rows (frame_of example_df) + 1)) = 10 \<and>
   melted_total (frame_of example_df) 1 = Some 10 \<and>
   row_total (frame_of example_df) 1 = Some 10"
proof -
  have h1: "frame_ok (frame_of example_df)"
    by (simp add: frame_ok_def frame_of_def rows_def)
  have h2: "same_integer_type (frame_of example_df)"
    by (simp add: same_integer_type_def all_of_type_def frame_of_def)
  have n: "rows (frame_of example_df) = 2"
    by (simp add: rows_def frame_of_def example_df_def)
  have h3: "(1::nat) < rows (frame_of example_df)"
    by (simp add: n)
  have r: "row_total (frame_of example_df) 1 = Some 10"
    by (simp add: row_total_def frame_of_def example_df_def)
  have w: "words (saeopjang_gaipja_col (frame_of example_df)) ! 1 +
           words (jiyeok_gaipja_col (frame_of example_df)) ! 1 +
           words (imui_gaipja_col (frame_of example_df)) ! 1 +
           words (imui_gyesok_gaipja_col (frame_of example_df)) ! 1 = 10"
    by (simp add: frame_of_def example_df_def)
  from melt_row_count_and_sums [OF h1] h2 h3
  have "column_length (gaipja_su_col (melt (frame_of example_df))) =
          4 * rows (frame_of example_df)"
    and "(\<Sum>k<4. words (gaipja_su_col (melt (frame_of example_df))) !
             (k * rows (frame_of example_df) + 1)) =
         words (saeopjang_gaipja_col (frame_of example_df)) ! 1 +
         words (jiyeok_gaipja_col (frame_of example_df)) ! 1 +
         words (imui_gaipja_col (frame_of example_df)) ! 1 +
         words (imui_gyesok_gaipja_col (frame_of example_df)) ! 1"
    and "melted_total (frame_of example_df) 1 = row_total (frame_of example_df) 1"
    by blast+
  with h1 h2 h3 n r w show ?thesis by simp
qed

text \<open>
  C6, as stated: the long table is ordered by input row first and by value column
  within each input row. On the table of two rows it is not.
\<close>

theorem melt_order_counterexample:
  "df_melted example_df \<noteq> melted_by_input_row example_df"
  by (simp add: df_melted_def melted_by_input_row_def example_df_def value_vars_def
      melted_def)

text \<open>
  C6, amended: the long table is ordered by value column first, in the order listed,
  and within each value column by input row: the row at position \<open>k * n + i\<close>, for
  \<open>n\<close> input rows, is value column \<open>k\<close> of input row \<open>i\<close>.
\<close>

theorem melt_order:
  fixes df :: "'g row list"
  assumes "k < 4" and "i < length df"
  shows "df_melted df ! (k * length df + i) =
           \<lparr>m_yeonryeong_gubun = yeonryeong_gubun (df ! i), m_sido = sido (df ! i),
            gaip_yuhyeong = fst (value_vars ! k :: ustring \<times> ('g row \<Rightarrow> count)),
            gaipja_su = snd (value_vars ! k) (df ! i)\<rparr>"
  using df_melted_position [OF assms] by (simp add: melted_def)

theorem melt_order_witness:
  "(1::nat) < 4 \<and> (0::nat) < length example_df \<and>
   df_melted example_df ! (1 * length example_df + 0) =
     \<lparr>m_yeonryeong_gubun = 18, m_sido = seoul, gaip_yuhyeong = col_jiyeok_gaipja,
      gaipja_su = 20\<rparr>"
proof -
  have h1: "(1::nat) < 4" by simp
  have h2: "(0::nat) < length example_df" by (simp add: example_df_def)
  have "snd (value_vars ! 1) (example_df ! 0) = 20 \<and>
        fst (value_vars ! 1 :: ustring \<times> (nat row \<Rightarrow> count)) = col_jiyeok_gaipja \<and>
        yeonryeong_gubun (example_df ! 0) = 18 \<and> sido (example_df ! 0) = seoul"
    by (simp add: value_vars_def example_df_def)
  with melt_order [OF h1 h2] h1 h2 show ?thesis by simp
qed

section \<open>The aggregate\<close>


lemma distinct_group_keys: "distinct (group_keys df)"
  by (simp add: group_keys_def)

lemma set_group_keys: "set (group_keys df) = sido ` set df"
  by (simp add: group_keys_def)

lemma city_sum_keys: "map c_sido (city_sum df) = group_keys df"
  by (simp add: city_sum_def comp_def Let_def)



text \<open>
  C10: the provinces of the aggregate are strictly ascending in the lexicographic order
  of their code points, so none occurs twice, and they are the provinces of the input
  table.
\<close>

theorem city_sum_sorted_by_province:
  "sorted_wrt (<) (map c_sido (city_sum df)) \<and>
   set (map c_sido (city_sum df)) = sido ` set df"
  by (simp add: city_sum_keys strict_sorted_iff distinct_group_keys set_group_keys
      group_keys_def)

section \<open>The script as a whole\<close>

lemma run_example:
  "run (example_library example_loaded) example_world =
     (example_world
        \<lparr>files := (files example_world)(OUTPUT_FILE \<mapsto> Document example_document),
         stdout := stdout example_world @
           [map of_char ''Successfully generated report: '' @ OUTPUT_FILE]\<rparr>,
      Exit 0)"
  by (simp add: run_def load_def example_library_def example_world_def add_sido_example
      render_def example_document_def)

lemma run_Exit_0:
  assumes "run lib w = (w', Exit 0)"
  shows "\<exists>fa fr fc. files w' OUTPUT_FILE =
           Some (Document (html_template (to_html fa False Cdn)
                   (to_html fr False No_plotlyjs) (to_html fc False No_plotlyjs)))"
  using assms
  by (fastforce simp: run_def render_def split: option.splits sum.splits)

lemma template_chart_containers:
  "chart_containers (html_template a b c) =
     [Element ''div'' [(''class'', ''chart-container'')] [Interpolated a],
      Element ''div'' [(''class'', ''chart-container'')] [Interpolated b],
      Element ''div'' [(''class'', ''chart-container'')] [Interpolated c]]"
  by (simp add: chart_containers_def html_template_def)

lemma template_interpolations: "interpolations (html_template a b c) = [a, b, c]"
  by (simp add: html_template_def)

lemma template_sections:
  "map (attr ''id'') (sections (html_template a b c)) =
     [Some ''overview'', Some ''age-analysis'', Some ''region-analysis'', Some ''comparison'']"
  by (simp add: sections_def html_template_def)

lemma template_section_charts:
  "map (\<lambda>s. length (chart_containers s)) (sections (html_template a b c)) = [0, 1, 1, 1]"
  by (simp add: sections_def html_template_def chart_containers_def)

lemma template_nav_links:
  "map (attr ''href'') (nav_links (html_template a b c)) =
     [Some ''#overview'', Some ''#age-analysis'', Some ''#region-analysis'',
      Some ''#comparison'']"
  by (simp add: nav_links_def html_template_def)

text \<open>
  C4: when the input path holds nothing, the run prints one line, which contains the
  input path, and exits with status 1; the files are as before, and the result does
  not depend on the library, which is never called.
\<close>

theorem missing_input_file:
  assumes "files w FILE_PATH = None"
  shows "run lib w =
           (w\<lparr>stdout := stdout w @ [map of_char ''Error: File not found at '' @ FILE_PATH]\<rparr>,
            Exit 1) \<and>
         sublist FILE_PATH (last (stdout (fst (run lib w)))) \<and>
         files (fst (run lib w)) = files w \<and>
         exit_status (snd (run lib w)) = 1 \<and>
         run lib' w = run lib w"
proof -
  have "sublist FILE_PATH (map of_char ''Error: File not found at '' @ FILE_PATH)"
    by (rule suffix_imp_sublist) (rule suffixI, rule refl)
  then show ?thesis
    using assms by (simp add: run_def)
qed

theorem missing_input_file_witness:
  "files empty_world FILE_PATH = None \<and>
   exit_status (snd (run (example_library example_loaded) empty_world)) = 1 \<and>
   files (fst (run (example_library example_loaded) empty_world)) OUTPUT_FILE = None \<and>
   stdout (fst (run (example_library example_loaded) empty_world)) =
     [map of_char ''Error: File not found at '' @ FILE_PATH]"
proof -
  have h: "files empty_world FILE_PATH = None" by (simp add: empty_world_def)
  from missing_input_file
      [where w = empty_world and lib = "example_library example_loaded"
        and lib' = "example_library blank_loaded", OF h] h
  show ?thesis by (simp add: empty_world_def)
qed

text \<open>
  C5, as stated: the document of a successful run has four chart containers. The run
  on the example input succeeds and writes a document with three.
\<close>

theorem four_chart_containers_counterexample:
  "run (example_library example_loaded) example_world =
     (example_world
        \<lparr>files := (files example_world)(OUTPUT_FILE \<mapsto> Document example_document),
         stdout := stdout example_world @
           [map of_char ''Successfully generated report: '' @ OUTPUT_FILE]\<rparr>,
      Exit 0) \<and>
   length (chart_containers example_document) \<noteq> 4"
  by (simp add: run_example example_document_def template_chart_containers)

text \<open>
  C5, amended: the document of a successful run has exactly three chart containers,
  each holding one fragment, one in each section but the first, and exactly four
  navigation links, one per section in the same order, each link's target being its
  section's id.
\<close>

theorem document_structure:
  assumes "run lib w = (w', Exit 0)"
  shows "\<exists>doc. files w' OUTPUT_FILE = Some (Document doc) \<and>
           length (chart_containers doc) = 3 \<and>
           map (\<lambda>c. length (interpolations c)) (chart_containers doc) = [1, 1, 1] \<and>
           map (\<lambda>s. length (chart_containers s)) (sections doc) = [0, 1, 1, 1] \<and>
           length (nav_links doc) = 4 \<and>
           length (sections doc) = 4 \<and>
           map (attr ''id'') (sections doc) =
             [Some ''overview'', Some ''age-analysis'', Some ''region-analysis'',
              Some ''comparison''] \<and>
           map (attr ''href'') (nav_links doc) =
             map (\<lambda>s. map_option (\<lambda>i. CHR ''#'' # i) (attr ''id'' s)) (sections doc)"
proof -
  from run_Exit_0 [OF assms] obtain a b c
    where f: "files w' OUTPUT_FILE = Some (Document (html_template a b c))"
    by blast
  have n: "length (nav_links (html_template a b c)) = 4"
    using arg_cong [OF template_nav_links [of a b c], of length] by simp
  have s: "length (sections (html_template a b c)) = 4"
    using arg_cong [OF template_sections [of a b c], of length] by simp
  have i: "map (attr ''id'') (sections (html_template a b c)) =
             [Some ''overview'', Some ''age-analysis'', Some ''region-analysis'',
              Some ''comparison'']"
    by (rule template_sections)
  have "map (\<lambda>s. map_option (\<lambda>i. CHR ''#'' # i) (attr ''id'' s)) (sections (html_template a b c)) =
        map (map_option (\<lambda>i. CHR ''#'' # i)) (map (attr ''id'') (sections (html_template a b c)))"
    by (simp add: comp_def)
  then have h: "map (attr ''href'') (nav_links (html_template a b c)) =
        map (\<lambda>s. map_option (\<lambda>i. CHR ''#'' # i) (attr ''id'' s)) (sections (html_template a b c))"
    by (simp add: template_nav_links i)
  show ?thesis
    using f n s h i by (simp add: template_chart_containers template_section_charts)
qed

theorem document_structure_witness:
  "snd (run (example_library example_loaded) example_world) = Exit 0 \<and>
   (\<exists>doc. files (fst (run (example_library example_loaded) example_world)) OUTPUT_FILE =
            Some (Document doc) \<and>
          length (chart_containers doc) = 3 \<and> length (nav_links doc) = 4)"
proof -
  have h: "run (example_library example_loaded) example_world =
      (fst (run (example_library example_loaded) example_world), Exit 0)"
    by (simp add: run_example)
  from document_structure [OF h] have
    "\<exists>doc. files (fst (run (example_library example_loaded) example_world)) OUTPUT_FILE =
            Some (Document doc) \<and>
          length (chart_containers doc) = 3 \<and> length (nav_links doc) = 4"
    by blast
  moreover have "snd (run (example_library example_loaded) example_world) = Exit 0"
    by (simp add: run_example)
  ultimately show ?thesis by simp
qed

text \<open>
  C7: the document of a successful run interpolates three fragments; the first in
  document order includes the reference to the library and the other two omit it.
\<close>

theorem library_included_once_and_first:
  assumes "run lib w = (w', Exit 0)"
  shows "\<exists>doc. files w' OUTPUT_FILE = Some (Document doc) \<and>
           map includes_library (interpolations doc) = [True, False, False]"
proof -
  from run_Exit_0 [OF assms] obtain a b c
    where "files w' OUTPUT_FILE =
             Some (Document (html_template (to_html a False Cdn) (to_html b False No_plotlyjs)
                     (to_html c False No_plotlyjs)))"
    by blast
  then show ?thesis
    by (simp add: template_interpolations includes_library_def to_html_def)
qed

theorem library_included_once_and_first_witness:
  "snd (run (example_library example_loaded) example_world) = Exit 0 \<and>
   (\<exists>doc. files (fst (run (example_library example_loaded) example_world)) OUTPUT_FILE =
            Some (Document doc) \<and>
          map includes_library (interpolations doc) = [True, False, False])"
proof -
  have h: "run (example_library example_loaded) example_world =
      (fst (run (example_library example_loaded) example_world), Exit 0)"
    by (simp add: run_example)
  have "snd (run (example_library example_loaded) example_world) = Exit 0"
    by (simp add: run_example)
  with library_included_once_and_first [OF h] show ?thesis by simp
qed

text \<open>
  C9: when the table read from the input file has a row whose region name is empty or
  all whitespace, the run ends with an exception nobody catches, with a non-zero
  status, and leaves the world as it was.
\<close>

theorem blank_region_name_is_unhandled:
  assumes "files w FILE_PATH = Some c" and "read_csv lib c = Inr loaded"
    and "r \<in> set loaded" and "sigungumyeong r = Str s" and "list_all is_space s"
  shows "\<exists>e. run lib w = (w, Uncaught e) \<and> exit_status (snd (run lib w)) \<noteq> 0"
proof -
  from assms(5) have "dropWhile is_space s = []"
    by (simp add: list_all_iff)
  then have "first_of_split (sigungumyeong r) = Inl IndexError"
    using assms(4) by (simp add: first_of_split_blank)
  from add_sido_fails [OF assms(3) this] obtain e where "add_sido loaded = Inl e"
    by blast
  then show ?thesis
    using assms(1,2) by (simp add: run_def load_def)
qed

theorem blank_region_name_is_unhandled_witness:
  "files example_world FILE_PATH = Some (Bytes []) \<and>
   read_csv (example_library blank_loaded) (Bytes []) = Inr blank_loaded \<and>
   hd blank_loaded \<in> set blank_loaded \<and>
   sigungumyeong (hd blank_loaded) = Str [32, 32] \<and>
   list_all is_space [32, 32] \<and>
   (\<exists>e. run (example_library blank_loaded) example_world = (example_world, Uncaught e) \<and>
        exit_status (snd (run (example_library blank_loaded) example_world)) \<noteq> 0)"
proof -
  have h1: "files example_world FILE_PATH = Some (Bytes [])"
    by (simp add: example_world_def)
  have h2: "read_csv (example_library blank_loaded) (Bytes []) = Inr blank_loaded"
    by (simp add: example_library_def)
  have h3: "hd blank_loaded \<in> set blank_loaded" by (simp add: blank_loaded_def)
  have h4: "sigungumyeong (hd blank_loaded) = Str [32, 32]" by (simp add: blank_loaded_def)
  have h5: "list_all is_space [32, 32]" by (simp add: is_space_def)
  from blank_region_name_is_unhandled [OF h1 h2 h3 h4 h5] h1 h2 h3 h4 h5
  show ?thesis by simp
qed

end
